theory Spec2Isabelle
  imports Complex_Main "HOL-Library.AList"
begin

section \<open>Numbers, results and the data model\<close>

text \<open>
  The timer library computes with JavaScript numbers, which are binary64 values.  They
  are modelled as exact rationals: every division of the source is written out for a
  zero divisor (where JavaScript produces an infinity or NaN), there is no NaN and no
  infinity, and the result of an operation is not rounded to the nearest binary64
  value.  The comparisons and \<open>Math.round\<close> (to the nearest integer, a tie going up)
  are exact in both.  A sum, difference or product is the same in both when its
  operands and its exact result are binary64 values, as whole numbers of magnitude up
  to \<open>2 ^ 53\<close> are; it can differ by the rounding otherwise, so that a fraction just
  below one half can round up in the source and down here.
\<close>

type_synonym number = rat

definition Math_round :: "number \<Rightarrow> number" where
  "Math_round x = of_int \<lfloor>x + 1 / 2\<rfloor>"

text \<open>Truthiness of a field of type \<open>number | undefined\<close>: \<open>undefined\<close> and \<open>0\<close> are falsy.\<close>

definition truthy :: "number option \<Rightarrow> bool" where
  "truthy v = (case v of None \<Rightarrow> False | Some t \<Rightarrow> t \<noteq> 0)"

text \<open>A quotient of the source; \<open>None\<close> stands for the non-finite result of a zero divisor.\<close>

definition js_div :: "number \<Rightarrow> number \<Rightarrow> number option" where
  "js_div x y = (if y = 0 then None else Some (x / y))"

datatype cb_type = Checkpoint | CheckpointOnce | Tick | TickReset

fun type_str :: "cb_type \<Rightarrow> string" where
  "type_str Checkpoint = ''checkpoint''"
| "type_str CheckpointOnce = ''checkpoint-once''"
| "type_str Tick = ''tick''"
| "type_str TickReset = ''tick-reset''"

text \<open>Decimal rendering of a sequence number, as a template literal prints it.\<close>

definition digit_char :: "nat \<Rightarrow> char" where
  "digit_char n = ''0123456789'' ! n"

function show_nat :: "nat \<Rightarrow> string" where
  "show_nat n = (if n < 10 then [digit_char n] else show_nat (n div 10) @ [digit_char (n mod 10)])"
  by pat_completeness auto
termination
  by (relation "measure (\<lambda>n. n)") auto

declare show_nat.simps [simp del]

text \<open>
  The function stored in a callback record.  A function supplied by the user is opaque:
  it is known by an identifier, and calling it is recorded in the log \<open>invoked\<close> of the
  state and does not call back into the timer.  The two closures the library builds
  itself are modelled by what they do: the completion handler a countdown registers in
  its constructor, and the wrapper \<open>handleTickCallback\<close> puts around the function of a
  tick callback (it carries the interval and the function of the callback it wraps).
\<close>

datatype action = UserFn nat | CountdownCompleteInternal | TickFirstRun number action

text \<open>
  \<open>InternalCallback\<close>.  The field \<open>oid\<close> is the identity of the object: the source
  writes \<open>lastExecutionMs\<close> through references held by closures, and the model writes
  to the registered record of the same identity.
\<close>

record icb =
  name :: string
  callback :: action
  timeMs :: number
  ctype :: cb_type
  requireAnimationFrame :: bool
  executeOnUpdate :: bool
  logExecutions :: bool
  lastExecutionMs :: number
  registeredAt :: number
  disableTickDriftCompensation :: bool
  oid :: nat

text \<open>\<open>SuperTimerCallbackBase\<close>: what a caller passes to \<open>registerCallbacks\<close>.\<close>

record callback_spec =
  cb_type :: cb_type
  cb_timeMs :: number
  cb_callback :: action
  cb_requireAnimationFrame :: "bool option"
  cb_executeOnUpdate :: "bool option"
  cb_name :: "string option"
  cb_logExecutions :: "bool option"
  cb_disableTickDriftCompensation :: "bool option"

datatype event_type =
  EvCreate | EvPause | EvUnpause | EvStart | EvCheckpoint | EvTick | EvSetTime | EvAddTime
  | EvReset | EvSetSpeed

text \<open>
  The payload of an event: a callback name, the new speed, or the message of
  \<open>addTime\<close> and \<open>setTime\<close> (kept as the number the message prints).
\<close>

datatype event_data = NoData | DataName string | DataSpeed number | DataAddTime number
  | DataSetTime number

datatype TimerEvent = TimerEvent (date: number) (ev_elapsedMs: number) (event: event_type)
  (data: event_data)

text \<open>The functions the library hands to the host's scheduler.\<close>

datatype closure =
    CheckpointTimeout icb event_type "icb option"
  | TickInterval icb
  | RafLoop icb
  | RafInvoke icb "icb option" number

text \<open>A pending host timer: its handle, the host time it was set at, its delay or period.\<close>

datatype host_task = HostTask (handle: nat) (setAt: number) (delay: "number option")
  (body: closure)

datatype timer_class = SuperTimerClass | SuperCountdownClass

datatype invocation = CallbackRun string nat | CompleteRun nat

datatype error = Disposed string | NameConflict cb_type "string option" | TypeError | RangeError

datatype 'a res = Return 'a | Throw error

text \<open>
  The state of one timer object together with the host it runs on.  The fields up to
  \<open>tname\<close> are those of \<open>SuperTimerBase\<close>, \<open>completeTime\<close> and \<open>completeCallbacks\<close>
  those of \<open>SuperCountdown\<close>.  The three maps of the source are insertion-ordered
  \<open>Map\<close>s, modelled as association lists.  \<open>hostNow\<close> is the reading of
  \<open>performance.now()\<close>; it does not change while one call runs, and it also stands
  for the \<open>Date\<close> stamped on an event.  \<open>hostTimeouts\<close>,
  \<open>hostIntervals\<close> and \<open>hostRafs\<close> are the timers pending in the host.
\<close>

record timer =
  cls :: timer_class
  tid :: nat
  callbacks :: "icb list"
  history :: "TimerEvent list"
  unpausedAt :: "number option"
  pausedAt :: number
  elapsedMs :: number
  timeouts :: "(string \<times> nat) list"
  intervals :: "(string \<times> nat) list"
  rafs :: "(string \<times> nat) list"
  callbackIdSeeds :: "cb_type \<Rightarrow> nat option"
  callbackNames :: "cb_type \<Rightarrow> string set option"
  disposed :: bool
  speed :: number
  tname :: string
  completeTime :: number
  completeCallbacks :: "(nat \<times> nat \<times> bool) list"
  hostNow :: number
  structuredCloneAvailable :: bool
  hostTimeouts :: "host_task list"
  hostIntervals :: "host_task list"
  hostRafs :: "(nat \<times> closure) list"
  nextHandle :: nat
  nextOid :: nat
  invoked :: "invocation list"

text \<open>
  A call returns a value or throws; either way it leaves a state behind, since a
  JavaScript exception does not undo the assignments made before it.
\<close>

definition andThen ::
  "'a res \<times> timer \<Rightarrow> ('a \<Rightarrow> timer \<Rightarrow> 'b res \<times> timer) \<Rightarrow> 'b res \<times> timer" where
  "andThen r f = (case r of (Return a, s) \<Rightarrow> f a s | (Throw e, s) \<Rightarrow> (Throw e, s))"

primrec forEach :: "('a \<Rightarrow> timer \<Rightarrow> unit res \<times> timer) \<Rightarrow> 'a list \<Rightarrow> timer \<Rightarrow> unit res \<times> timer" where
  "forEach f [] s = (Return (), s)"
| "forEach f (x # xs) s = andThen (f x s) (\<lambda>_ s'. forEach f xs s')"

section \<open>The host's scheduler\<close>

definition setTimeout :: "closure \<Rightarrow> number option \<Rightarrow> timer \<Rightarrow> nat \<times> timer" where
  "setTimeout f d s =
     (nextHandle s,
      s\<lparr>hostTimeouts := hostTimeouts s @ [HostTask (nextHandle s) (hostNow s) d f],
        nextHandle := Suc (nextHandle s)\<rparr>)"

definition clearTimeout :: "nat \<Rightarrow> timer \<Rightarrow> timer" where
  "clearTimeout h s = s\<lparr>hostTimeouts := filter (\<lambda>t. handle t \<noteq> h) (hostTimeouts s)\<rparr>"

definition setInterval :: "closure \<Rightarrow> number option \<Rightarrow> timer \<Rightarrow> nat \<times> timer" where
  "setInterval f d s =
     (nextHandle s,
      s\<lparr>hostIntervals := hostIntervals s @ [HostTask (nextHandle s) (hostNow s) d f],
        nextHandle := Suc (nextHandle s)\<rparr>)"

definition clearInterval :: "nat \<Rightarrow> timer \<Rightarrow> timer" where
  "clearInterval h s = s\<lparr>hostIntervals := filter (\<lambda>t. handle t \<noteq> h) (hostIntervals s)\<rparr>"

definition requestAnimationFrame :: "closure \<Rightarrow> timer \<Rightarrow> nat \<times> timer" where
  "requestAnimationFrame f s =
     (nextHandle s,
      s\<lparr>hostRafs := hostRafs s @ [(nextHandle s, f)], nextHandle := Suc (nextHandle s)\<rparr>)"

definition cancelAnimationFrame :: "nat \<Rightarrow> timer \<Rightarrow> timer" where
  "cancelAnimationFrame h s = s\<lparr>hostRafs := filter (\<lambda>t. fst t \<noteq> h) (hostRafs s)\<rparr>"

section \<open>The clock engine (\<open>SuperTimerBase\<close>)\<close>

text \<open>
  The engine is abstract in \<open>executeCallback\<close>; the functions below that run callbacks
  take it as the parameter \<open>exec\<close>.
\<close>

definition running :: "timer \<Rightarrow> bool" where
  "running s = truthy (unpausedAt s)"

definition checkDisposed :: "timer \<Rightarrow> unit res \<times> timer" where
  "checkDisposed s = (if disposed s then (Throw (Disposed (tname s)), s) else (Return (), s))"

definition getElapsedMs :: "timer \<Rightarrow> number res \<times> timer" where
  "getElapsedMs s =
     andThen (checkDisposed s) (\<lambda>_ s.
       if \<not> running s then (Return (Math_round (elapsedMs s)), s)
       else (case unpausedAt s of
               None \<Rightarrow> (Return (Math_round (elapsedMs s)), s)
             | Some u \<Rightarrow>
                 (let elapsedSinceLastPause = (hostNow s - u) * speed s
                  in (Return (Math_round (elapsedMs s + elapsedSinceLastPause)), s))))"

definition pushEvent :: "event_type \<Rightarrow> number \<Rightarrow> event_data \<Rightarrow> timer \<Rightarrow> timer" where
  "pushEvent ev el d s = s\<lparr>history := history s @ [TimerEvent (hostNow s) el ev d]\<rparr>"

definition setLastExecutionMs :: "icb \<Rightarrow> number \<Rightarrow> timer \<Rightarrow> timer" where
  "setLastExecutionMs target el s =
     s\<lparr>callbacks :=
         map (\<lambda>c. if oid c = oid target then c\<lparr>lastExecutionMs := el\<rparr> else c) (callbacks s)\<rparr>"

definition sourceOr :: "icb option \<Rightarrow> icb \<Rightarrow> icb" where
  "sourceOr sourceCallback cb = (case sourceCallback of Some src \<Rightarrow> src | None \<Rightarrow> cb)"

definition createEventAndInvokeCallback ::
  "(icb \<Rightarrow> timer \<Rightarrow> unit res \<times> timer) \<Rightarrow> icb \<Rightarrow> event_type option \<Rightarrow> icb option \<Rightarrow> timer
     \<Rightarrow> unit res \<times> timer" where
  "createEventAndInvokeCallback exec cb eventType sourceCallback s =
     andThen (getElapsedMs s) (\<lambda>el s.
       let s1 = (case eventType of
                   Some ev \<Rightarrow> pushEvent ev el (DataName (name cb)) s
                 | None \<Rightarrow> s)
       in if requireAnimationFrame cb then
            (let r = requestAnimationFrame (RafInvoke cb sourceCallback el) s1
             in (Return (), (snd r)\<lparr>rafs := AList.update (name cb) (fst r) (rafs (snd r))\<rparr>))
          else exec cb (setLastExecutionMs (sourceOr sourceCallback cb) el s1))"

definition handleRafCallback ::
  "(icb \<Rightarrow> timer \<Rightarrow> unit res \<times> timer) \<Rightarrow> icb \<Rightarrow> timer \<Rightarrow> unit res \<times> timer" where
  "handleRafCallback exec cb s =
     andThen (getElapsedMs s) (\<lambda>el s.
       if running s then
         andThen (exec cb (pushEvent EvTick el (DataName (name cb)) (setLastExecutionMs cb el s)))
           (\<lambda>_ s. let r = requestAnimationFrame (RafLoop cb) s
                   in (Return (), (snd r)\<lparr>rafs := AList.update (name cb) (fst r) (rafs (snd r))\<rparr>))
       else (Return (), s))"

text \<open>
  \<open>msUntilCheckpoint <= 0\<close> with a zero speed compares an infinity or NaN with 0: it holds
  only for a negative numerator.
\<close>

definition handleCheckpointCallback ::
  "icb \<Rightarrow> event_type \<Rightarrow> icb option \<Rightarrow> timer \<Rightarrow> unit res \<times> timer" where
  "handleCheckpointCallback cb eventType sourceCallback s =
     andThen (getElapsedMs s) (\<lambda>el s.
       let msUntilCheckpoint = js_div (timeMs cb - el) (speed s) in
       if (case msUntilCheckpoint of Some q \<Rightarrow> q \<le> 0 | None \<Rightarrow> timeMs cb - el < 0)
       then (Return (), s)
       else (let r = setTimeout (CheckpointTimeout cb eventType sourceCallback) msUntilCheckpoint s
             in (Return (), (snd r)\<lparr>timeouts := AList.update (name cb) (fst r) (timeouts (snd r))\<rparr>)))"

definition handleTickResetCallback :: "icb \<Rightarrow> timer \<Rightarrow> timer" where
  "handleTickResetCallback cb s =
     (if timeMs cb = 0 \<and> requireAnimationFrame cb then
        (let r = requestAnimationFrame (RafLoop cb) s
         in (snd r)\<lparr>rafs := AList.update (name cb) (fst r) (rafs (snd r))\<rparr>)
      else
        (let r = setInterval (TickInterval cb) (js_div (timeMs cb) (speed s)) s
         in (snd r)\<lparr>intervals := AList.update (name cb) (fst r) (intervals (snd r))\<rparr>))"

text \<open>
  The target of the next execution of a tick callback, as \<open>handleTickCallback\<close> computes
  it.  With a zero interval the quotient is not finite, the ideal time is NaN, and the
  comparison with it is false.
\<close>

definition nextExecutionTime :: "icb \<Rightarrow> number \<Rightarrow> number" where
  "nextExecutionTime cb el =
     (let naive = lastExecutionMs cb + timeMs cb in
      if disableTickDriftCompensation cb \<noteq> True then
        (if timeMs cb = 0 then naive
         else (let fullIntervals = of_int \<lfloor>(el - registeredAt cb) / timeMs cb\<rfloor>;
                   idealNextExecutionTime = registeredAt cb + (fullIntervals + 1) * timeMs cb
               in if naive - idealNextExecutionTime > 0 then idealNextExecutionTime else naive))
      else naive)"

definition handleTickCallback :: "icb \<Rightarrow> timer \<Rightarrow> unit res \<times> timer" where
  "handleTickCallback cb s =
     andThen (getElapsedMs s) (\<lambda>el s.
       let next = nextExecutionTime cb el in
       if next > el \<and> next < el + timeMs cb then
         handleCheckpointCallback
           (cb\<lparr>callback := TickFirstRun (timeMs cb) (callback cb), timeMs := next\<rparr>)
           EvTick (Some cb) s
       else (Return (), handleTickResetCallback cb s))"

definition startCallback :: "icb \<Rightarrow> timer \<Rightarrow> unit res \<times> timer" where
  "startCallback cb s =
     (case ctype cb of
        Checkpoint \<Rightarrow> handleCheckpointCallback cb EvCheckpoint None s
      | CheckpointOnce \<Rightarrow> handleCheckpointCallback cb EvCheckpoint None s
      | TickReset \<Rightarrow> (Return (), handleTickResetCallback cb s)
      | Tick \<Rightarrow> handleTickCallback cb s)"

definition startCallbacks :: "icb list \<Rightarrow> timer \<Rightarrow> unit res \<times> timer" where
  "startCallbacks cbs s = (if \<not> running s then (Return (), s) else forEach startCallback cbs s)"

text \<open>
  \<open>clearTimeouts\<close>.  The loop over the intervals clears the map inside its body, so it
  ends after the first entry: only the first interval is cancelled in the host.
\<close>

definition clearTimeouts :: "bool \<Rightarrow> timer \<Rightarrow> timer" where
  "clearTimeouts excludeIntervals s =
     (let s1 = (fold clearTimeout (map snd (timeouts s)) s)\<lparr>timeouts := []\<rparr> in
      if \<not> excludeIntervals then
        (let s2 = (case intervals s1 of
                     [] \<Rightarrow> s1
                   | kv # _ \<Rightarrow> (clearInterval (snd kv) s1)\<lparr>intervals := []\<rparr>)
         in (fold cancelAnimationFrame (map snd (rafs s2)) s2)\<lparr>rafs := []\<rparr>)
      else s1)"

definition executeUpdateCallbacks ::
  "(icb \<Rightarrow> timer \<Rightarrow> unit res \<times> timer) \<Rightarrow> timer \<Rightarrow> unit res \<times> timer" where
  "executeUpdateCallbacks exec s =
     forEach (\<lambda>cb s.
        if executeOnUpdate cb then
          createEventAndInvokeCallback exec cb
            (Some (if ctype cb = Checkpoint then EvCheckpoint else EvTick)) None s
        else (Return (), s)) (callbacks s) s"

text \<open>
  One turn of the loop of \<open>registerCallbacks\<close>; \<open>acc\<close> is \<open>callbacksToStart\<close>.  A name
  set that is missing although the seed is set makes \<open>.has\<close> fail on \<open>undefined\<close>.
\<close>

definition registerOne :: "callback_spec \<Rightarrow> icb list \<Rightarrow> timer \<Rightarrow> icb list res \<times> timer" where
  "registerOne c acc s =
     (let s1 = (if (case callbackIdSeeds s (cb_type c) of None \<Rightarrow> True | Some n \<Rightarrow> n = 0)
                then s\<lparr>callbackIdSeeds := (callbackIdSeeds s)(cb_type c \<mapsto> 1),
                       callbackNames := (callbackNames s)(cb_type c \<mapsto> {})\<rparr>
                else s)
      in case callbackIdSeeds s1 (cb_type c) of
           None \<Rightarrow> (Throw TypeError, s1)
         | Some callbackIdSeed \<Rightarrow>
            (case callbackNames s1 (cb_type c) of
               None \<Rightarrow> (Throw TypeError, s1)
             | Some callbackNamesForType \<Rightarrow>
                (let callbackName = (case cb_name c of
                                       Some n \<Rightarrow> n
                                     | None \<Rightarrow> type_str (cb_type c) @ ''-'' @ show_nat callbackIdSeed)
                 in if callbackName \<in> callbackNamesForType
                    then (Throw (NameConflict (cb_type c) (cb_name c)), s1)
                    else andThen (getElapsedMs s1) (\<lambda>el s2.
                      let internalCallback =
                            \<lparr>name = callbackName,
                             callback = cb_callback c,
                             timeMs = cb_timeMs c,
                             ctype = cb_type c,
                             requireAnimationFrame =
                               (case cb_requireAnimationFrame c of Some b \<Rightarrow> b | None \<Rightarrow> False),
                             executeOnUpdate =
                               (case cb_executeOnUpdate c of Some b \<Rightarrow> b | None \<Rightarrow> False),
                             logExecutions =
                               (case cb_logExecutions c of Some b \<Rightarrow> b | None \<Rightarrow> False),
                             lastExecutionMs = el,
                             registeredAt = el,
                             disableTickDriftCompensation =
                               (case cb_disableTickDriftCompensation c of Some b \<Rightarrow> b | None \<Rightarrow> False),
                             oid = nextOid s2\<rparr>
                      in (Return (acc @ [internalCallback]),
                          s2\<lparr>callbacks := callbacks s2 @ [internalCallback],
                             nextOid := Suc (nextOid s2),
                             callbackIdSeeds := (callbackIdSeeds s2)(cb_type c \<mapsto> Suc callbackIdSeed),
                             callbackNames :=
                               (callbackNames s2)(cb_type c \<mapsto> insert callbackName callbackNamesForType)\<rparr>)))))"

primrec registerLoop :: "callback_spec list \<Rightarrow> icb list \<Rightarrow> timer \<Rightarrow> icb list res \<times> timer" where
  "registerLoop [] acc s = (Return acc, s)"
| "registerLoop (c # cs) acc s = andThen (registerOne c acc s) (\<lambda>acc' s'. registerLoop cs acc' s')"

definition registerCallbacks :: "callback_spec list \<Rightarrow> timer \<Rightarrow> unit res \<times> timer" where
  "registerCallbacks cbs s =
     andThen (checkDisposed s) (\<lambda>_ s.
       andThen (registerLoop cbs [] s) (\<lambda>callbacksToStart s. startCallbacks callbacksToStart s))"

text \<open>
  \<open>splice\<close> at the index \<open>findIndex\<close> returns: the first record of that name is removed.
\<close>

primrec removeFirst :: "('a \<Rightarrow> bool) \<Rightarrow> 'a list \<Rightarrow> 'a list" where
  "removeFirst P [] = []"
| "removeFirst P (x # xs) = (if P x then xs else x # removeFirst P xs)"

definition deleteName :: "cb_type \<Rightarrow> string \<Rightarrow> timer \<Rightarrow> timer" where
  "deleteName t n s =
     (case callbackNames s t of
        None \<Rightarrow> s
      | Some ns \<Rightarrow> s\<lparr>callbackNames := (callbackNames s)(t \<mapsto> ns - {n})\<rparr>)"

text \<open>
  One turn of the loop of \<open>removeCallbacks\<close>.  A handle of the host is never falsy
  (a positive identifier in a browser, an object in Node), so \<open>if (timeout)\<close> asks
  whether the map has the name.
\<close>

definition removeOne :: "string \<Rightarrow> timer \<Rightarrow> timer" where
  "removeOne n s =
     (let s1 = (case map_of (timeouts s) n of
                  Some h \<Rightarrow> (clearTimeout h s)\<lparr>timeouts := AList.delete n (timeouts s)\<rparr>
                | None \<Rightarrow> s);
          s2 = (case map_of (intervals s1) n of
                  Some h \<Rightarrow> (clearInterval h s1)\<lparr>intervals := AList.delete n (intervals s1)\<rparr>
                | None \<Rightarrow> s1);
          s3 = (case map_of (rafs s2) n of
                  Some h \<Rightarrow> (cancelAnimationFrame h s2)\<lparr>rafs := AList.delete n (rafs s2)\<rparr>
                | None \<Rightarrow> s2);
          s4 = s3\<lparr>callbacks := removeFirst (\<lambda>c. name c = n) (callbacks s3)\<rparr>
      in deleteName TickReset n (deleteName Tick n (deleteName CheckpointOnce n
           (deleteName Checkpoint n s4))))"

definition removeCallbacks :: "string list \<Rightarrow> timer \<Rightarrow> unit res \<times> timer" where
  "removeCallbacks callbackNamesArg s =
     andThen (checkDisposed s) (\<lambda>_ s. (Return (), fold removeOne callbackNamesArg s))"

definition startsWithBang :: "string \<Rightarrow> bool" where
  "startsWithBang n = (case n of [] \<Rightarrow> False | ch # _ \<Rightarrow> ch = CHR ''!'')"

definition removeAllCallbacks :: "timer \<Rightarrow> unit res \<times> timer" where
  "removeAllCallbacks s =
     andThen (checkDisposed s) (\<lambda>_ s.
       removeCallbacks (map name (filter (\<lambda>c. \<not> startsWithBang (name c)) (callbacks s))) s)"

definition unpause ::
  "(icb \<Rightarrow> timer \<Rightarrow> unit res \<times> timer) \<Rightarrow> timer \<Rightarrow> unit res \<times> timer" where
  "unpause exec s =
     andThen (checkDisposed s) (\<lambda>_ s.
       if running s then (Return (), s)
       else andThen (getElapsedMs (s\<lparr>unpausedAt := Some (hostNow s)\<rparr>)) (\<lambda>el s.
         andThen (startCallbacks (callbacks s) (pushEvent EvUnpause el NoData s)) (\<lambda>_ s.
           executeUpdateCallbacks exec s)))"

definition pause ::
  "(icb \<Rightarrow> timer \<Rightarrow> unit res \<times> timer) \<Rightarrow> bool \<Rightarrow> timer \<Rightarrow> bool res \<times> timer" where
  "pause exec suppressUpdateCallbacks s =
     andThen (checkDisposed s) (\<lambda>_ s.
       case unpausedAt s of
         None \<Rightarrow> (Return False, s)
       | Some u \<Rightarrow>
          if \<not> running s then (Return False, s)
          else (let s1 = s\<lparr>pausedAt := hostNow s\<rparr>;
                    elapsedSinceLastPause = (pausedAt s1 - u) * speed s1;
                    s2 = s1\<lparr>elapsedMs := elapsedMs s1 + elapsedSinceLastPause, unpausedAt := None\<rparr>;
                    s3 = clearTimeouts False (pushEvent EvPause (elapsedMs s2) NoData s2)
                in if \<not> suppressUpdateCallbacks
                   then andThen (executeUpdateCallbacks exec s3) (\<lambda>_ s. (Return True, s))
                   else (Return True, s3)))"

definition dispose :: "timer \<Rightarrow> timer" where
  "dispose s = (clearTimeouts False s)\<lparr>disposed := True\<rparr>"

text \<open>
  \<open>getTimeRemaining\<close>, \<open>isDone\<close> and \<open>unpause\<close> of \<open>SuperCountdown\<close> stand here because
  the engine calls \<open>this.unpause\<close>, which is the override when the object is a countdown.
\<close>

definition getTimeRemaining :: "timer \<Rightarrow> number res \<times> timer" where
  "getTimeRemaining s = andThen (getElapsedMs s) (\<lambda>el s. (Return (completeTime s - el), s))"

definition isDone :: "timer \<Rightarrow> bool res \<times> timer" where
  "isDone s = andThen (getTimeRemaining s) (\<lambda>r s. (Return (r \<le> 0), s))"

definition SuperCountdown_unpause ::
  "(icb \<Rightarrow> timer \<Rightarrow> unit res \<times> timer) \<Rightarrow> timer \<Rightarrow> unit res \<times> timer" where
  "SuperCountdown_unpause exec s =
     andThen (isDone s) (\<lambda>isDoneNow s. if \<not> isDoneNow then unpause exec s else (Return (), s))"

definition this_unpause ::
  "(icb \<Rightarrow> timer \<Rightarrow> unit res \<times> timer) \<Rightarrow> timer \<Rightarrow> unit res \<times> timer" where
  "this_unpause exec s =
     (case cls s of
        SuperTimerClass \<Rightarrow> unpause exec s
      | SuperCountdownClass \<Rightarrow> SuperCountdown_unpause exec s)"

definition start :: "(icb \<Rightarrow> timer \<Rightarrow> unit res \<times> timer) \<Rightarrow> timer \<Rightarrow> unit res \<times> timer" where
  "start exec s = this_unpause exec s"

text \<open>
  \<open>_addTime\<close>.  The array is sorted by a comparator on \<open>timeMs\<close>; the sort of the host is
  stable, as \<open>sort_key\<close> is.  The value \<open>pause\<close> returns says whether the timer was
  running.
\<close>

definition private_addTime ::
  "(icb \<Rightarrow> timer \<Rightarrow> unit res \<times> timer) \<Rightarrow> number \<Rightarrow> bool \<Rightarrow> timer \<Rightarrow> unit res \<times> timer" where
  "private_addTime exec ms suppressCallbacks s =
     andThen (pause exec True (clearTimeouts True s)) (\<lambda>wasPaused s.
       andThen (getElapsedMs s) (\<lambda>oldElapsed s.
         let s2 = s\<lparr>elapsedMs := elapsedMs s + ms\<rparr>;
             sortedCallbacks = sort_key timeMs (filter (\<lambda>c. ctype c = Checkpoint) (callbacks s2))
         in andThen
              (if \<not> suppressCallbacks then
                 forEach (\<lambda>cb s.
                    if timeMs cb > oldElapsed \<and> timeMs cb \<le> oldElapsed + ms
                    then createEventAndInvokeCallback exec cb (Some EvCheckpoint) None s
                    else (Return (), s)) sortedCallbacks s2
               else (Return (), s2))
              (\<lambda>_ s. andThen (executeUpdateCallbacks exec s) (\<lambda>_ s.
                 if \<not> running s \<and> wasPaused then this_unpause exec s else (Return (), s)))))"

definition addTime ::
  "(icb \<Rightarrow> timer \<Rightarrow> unit res \<times> timer) \<Rightarrow> number \<Rightarrow> bool \<Rightarrow> timer \<Rightarrow> unit res \<times> timer" where
  "addTime exec ms suppressCallbacks s =
     andThen (checkDisposed s) (\<lambda>_ s.
       andThen (getElapsedMs s) (\<lambda>el s.
         private_addTime exec ms suppressCallbacks (pushEvent EvAddTime el (DataAddTime ms) s)))"

definition setTime ::
  "(icb \<Rightarrow> timer \<Rightarrow> unit res \<times> timer) \<Rightarrow> number \<Rightarrow> bool \<Rightarrow> timer \<Rightarrow> unit res \<times> timer" where
  "setTime exec ms suppressCallbacks s =
     andThen (checkDisposed s) (\<lambda>_ s.
       andThen (getElapsedMs s) (\<lambda>el s.
         let timeToAdd = ms - el
         in private_addTime exec timeToAdd suppressCallbacks
              (pushEvent EvSetTime el (DataSetTime ms) s)))"

text \<open>
  \<open>getState\<close>.  The history of the snapshot is a copy made by \<open>structuredClone\<close> when the
  host has that function, and the history object of the timer itself otherwise.  The
  second case is the reference \<open>InternalHistory\<close>: reading or writing through it reads
  or writes the field \<open>history\<close> of the timer.
\<close>

datatype history_ref = Cloned "TimerEvent list" | InternalHistory

datatype TimerState = TimerState (timerId: nat) (state_elapsedMs: number) (isPaused: bool)
  (state_history: history_ref)

definition getState :: "timer \<Rightarrow> TimerState res \<times> timer" where
  "getState s =
     andThen (checkDisposed s) (\<lambda>_ s.
       let h = (if structuredCloneAvailable s then Cloned (history s) else InternalHistory)
       in andThen (getElapsedMs s) (\<lambda>el s. (Return (TimerState (tid s) el (\<not> running s) h), s)))"

definition readHistory :: "history_ref \<Rightarrow> timer \<Rightarrow> TimerEvent list" where
  "readHistory h s = (case h of Cloned es \<Rightarrow> es | InternalHistory \<Rightarrow> history s)"

text \<open>What a caller does when it changes the events of a history it holds.\<close>

definition mutateHistory ::
  "(TimerEvent list \<Rightarrow> TimerEvent list) \<Rightarrow> history_ref \<Rightarrow> timer \<Rightarrow> history_ref \<times> timer" where
  "mutateHistory f h s =
     (case h of
        Cloned es \<Rightarrow> (Cloned (f es), s)
      | InternalHistory \<Rightarrow> (InternalHistory, s\<lparr>history := f (history s)\<rparr>))"

definition setSpeedMultiplier ::
  "(icb \<Rightarrow> timer \<Rightarrow> unit res \<times> timer) \<Rightarrow> number \<Rightarrow> timer \<Rightarrow> unit res \<times> timer" where
  "setSpeedMultiplier exec speedMultiplier s =
     (if speedMultiplier \<noteq> speed s then
        andThen (if running s
                 then andThen (pause exec False s) (\<lambda>_ s. (Return True, s))
                 else (Return False, s))
          (\<lambda>shouldUnpause s.
             let s1 = s\<lparr>speed := speedMultiplier\<rparr>;
                 s2 = pushEvent EvSetSpeed (elapsedMs s1) (DataSpeed speedMultiplier) s1
             in if shouldUnpause then this_unpause exec s2 else (Return (), s2))
      else (Return (), s))"

section \<open>\<open>SuperTimer\<close> and \<open>SuperCountdown\<close>\<close>

definition registerCompleteCallback :: "nat \<Rightarrow> bool \<Rightarrow> timer \<Rightarrow> unit res \<times> timer" where
  "registerCompleteCallback f once s =
     andThen (checkDisposed s) (\<lambda>_ s.
       (Return (), s\<lparr>completeCallbacks := completeCallbacks s @ [(nextOid s, f, once)],
                     nextOid := Suc (nextOid s)\<rparr>))"

definition SuperCountdown_addTime ::
  "(icb \<Rightarrow> timer \<Rightarrow> unit res \<times> timer) \<Rightarrow> number \<Rightarrow> bool \<Rightarrow> timer \<Rightarrow> unit res \<times> timer" where
  "SuperCountdown_addTime exec ms suppressCallbacks s = addTime exec (- ms) suppressCallbacks s"

definition setTimeRemaining ::
  "(icb \<Rightarrow> timer \<Rightarrow> unit res \<times> timer) \<Rightarrow> number \<Rightarrow> bool \<Rightarrow> timer \<Rightarrow> unit res \<times> timer" where
  "setTimeRemaining exec ms suppressCallbacks s =
     setTime exec (completeTime s - ms) suppressCallbacks s"

text \<open>
  The function of the checkpoint a countdown registers for itself: pause, clamp the time
  remaining to 0, then call the completion callbacks from a snapshot of their set.
\<close>

definition runCompleteCallback :: "nat \<times> nat \<times> bool \<Rightarrow> timer \<Rightarrow> unit res \<times> timer" where
  "runCompleteCallback cc s =
     (let s1 = s\<lparr>invoked := invoked s @ [CompleteRun (fst (snd cc))]\<rparr>
      in (Return (),
          if snd (snd cc)
          then s1\<lparr>completeCallbacks := filter (\<lambda>x. fst x \<noteq> fst cc) (completeCallbacks s1)\<rparr>
          else s1))"

definition countdownComplete ::
  "(icb \<Rightarrow> timer \<Rightarrow> unit res \<times> timer) \<Rightarrow> timer \<Rightarrow> unit res \<times> timer" where
  "countdownComplete exec s =
     andThen (pause exec False s) (\<lambda>_ s.
       andThen (setTimeRemaining exec 0 True s) (\<lambda>_ s.
         forEach runCompleteCallback (completeCallbacks s) s))"

text \<open>
  \<open>executeCallback\<close> is \<open>callback.callback(this)\<close> in both classes.  The completion
  handler calls back into the engine, which may execute callbacks again; the first
  argument bounds the depth of that nesting, and a deeper nesting ends as the host ends
  it, by a \<open>RangeError\<close>.  No registered callback nests deeper than once: the
  completion handler is registered without \<open>executeOnUpdate\<close>.
\<close>

primrec runAction ::
  "(timer \<Rightarrow> unit res \<times> timer) \<Rightarrow> action \<Rightarrow> icb \<Rightarrow> timer \<Rightarrow> unit res \<times> timer" where
  "runAction completion (UserFn f) cb s = (Return (), s\<lparr>invoked := invoked s @ [CallbackRun (name cb) f]\<rparr>)"
| "runAction completion CountdownCompleteInternal cb s = completion s"
| "runAction completion (TickFirstRun t a) cb s =
     runAction completion a (cb\<lparr>callback := a, timeMs := t\<rparr>)
       (handleTickResetCallback (cb\<lparr>callback := a, timeMs := t\<rparr>) s)"

primrec executeCallback :: "nat \<Rightarrow> icb \<Rightarrow> timer \<Rightarrow> unit res \<times> timer" where
  "executeCallback 0 cb s = runAction (\<lambda>s. (Throw RangeError, s)) (callback cb) cb s"
| "executeCallback (Suc d) cb s =
     runAction (countdownComplete (executeCallback d)) (callback cb) cb s"

definition SuperTimer_addTime :: "nat \<Rightarrow> number \<Rightarrow> bool \<Rightarrow> timer \<Rightarrow> unit res \<times> timer" where
  "SuperTimer_addTime d ms suppressCallbacks s = addTime (executeCallback d) ms suppressCallbacks s"

definition SuperTimer_setTime :: "nat \<Rightarrow> number \<Rightarrow> bool \<Rightarrow> timer \<Rightarrow> unit res \<times> timer" where
  "SuperTimer_setTime d ms suppressCallbacks s = setTime (executeCallback d) ms suppressCallbacks s"

text \<open>
  The constructors.  \<open>ident\<close> is the value of the module's counter \<open>timerId\<close>, \<open>now\<close> the
  host's clock and \<open>sc\<close> whether the host has \<open>structuredClone\<close>.  The callbacks of the
  options are registered before \<open>speed\<close> and \<open>name\<close> are assigned; the timer is paused
  then, so neither is read.
\<close>

record options =
  opt_name :: "string option"
  opt_callbacks :: "callback_spec list"
  opt_timerSpeedMultiplier :: "number option"

definition fieldInitializers :: "timer_class \<Rightarrow> nat \<Rightarrow> number \<Rightarrow> bool \<Rightarrow> timer" where
  "fieldInitializers cl ident now sc =
     \<lparr>cls = cl, tid = ident, callbacks = [], history = [], unpausedAt = None, pausedAt = 0,
      elapsedMs = 0, timeouts = [], intervals = [], rafs = [],
      callbackIdSeeds = Map.empty, callbackNames = Map.empty, disposed = False, speed = 0,
      tname = [], completeTime = 0, completeCallbacks = [], hostNow = now,
      structuredCloneAvailable = sc, hostTimeouts = [], hostIntervals = [], hostRafs = [],
      nextHandle = 1, nextOid = 0, invoked = []\<rparr>"

definition SuperTimerBase_new ::
  "timer_class \<Rightarrow> nat \<Rightarrow> number \<Rightarrow> bool \<Rightarrow> options \<Rightarrow> unit res \<times> timer" where
  "SuperTimerBase_new cl ident now sc opts =
     andThen (registerCallbacks (opt_callbacks opts) (fieldInitializers cl ident now sc)) (\<lambda>_ s.
       (Return (),
        s\<lparr>pausedAt := hostNow s,
          speed := (case opt_timerSpeedMultiplier opts of
                      Some v \<Rightarrow> if v = 0 then 1 else v
                    | None \<Rightarrow> 1),
          tname := (case opt_name opts of Some n \<Rightarrow> n | None \<Rightarrow> ''timer-'' @ show_nat ident)\<rparr>))"

definition SuperTimer_new :: "nat \<Rightarrow> number \<Rightarrow> bool \<Rightarrow> options \<Rightarrow> unit res \<times> timer" where
  "SuperTimer_new ident now sc opts = SuperTimerBase_new SuperTimerClass ident now sc opts"

definition completeInternalSpec :: "number \<Rightarrow> callback_spec" where
  "completeInternalSpec t =
     \<lparr>cb_type = Checkpoint, cb_timeMs = t, cb_callback = CountdownCompleteInternal,
      cb_requireAnimationFrame = None, cb_executeOnUpdate = None,
      cb_name = Some ''!countdown-complete-internal'', cb_logExecutions = None,
      cb_disableTickDriftCompensation = None\<rparr>"

definition SuperCountdown_new ::
  "nat \<Rightarrow> number \<Rightarrow> bool \<Rightarrow> number \<Rightarrow> nat option \<Rightarrow> options \<Rightarrow> unit res \<times> timer" where
  "SuperCountdown_new ident now sc t onComplete opts =
     andThen (SuperTimerBase_new SuperCountdownClass ident now sc opts) (\<lambda>_ s.
       andThen (registerCallbacks [completeInternalSpec t]
                  (s\<lparr>completeTime := t, completeCallbacks := []\<rparr>)) (\<lambda>_ s.
         case onComplete of
           Some f \<Rightarrow> registerCompleteCallback f False s
         | None \<Rightarrow> (Return (), s)))"

section \<open>The host firing its timers\<close>

definition runClosure ::
  "(icb \<Rightarrow> timer \<Rightarrow> unit res \<times> timer) \<Rightarrow> closure \<Rightarrow> timer \<Rightarrow> unit res \<times> timer" where
  "runClosure exec cl s =
     (case cl of
        CheckpointTimeout cb eventType sourceCallback \<Rightarrow>
          andThen (if ctype cb = CheckpointOnce then removeCallbacks [name cb] s else (Return (), s))
            (\<lambda>_ s. createEventAndInvokeCallback exec cb (Some eventType) sourceCallback s)
      | TickInterval cb \<Rightarrow> createEventAndInvokeCallback exec cb (Some EvTick) None s
      | RafLoop cb \<Rightarrow> handleRafCallback exec cb s
      | RafInvoke cb sourceCallback el \<Rightarrow>
          exec cb (setLastExecutionMs (sourceOr sourceCallback cb) el s))"

definition advance :: "number \<Rightarrow> timer \<Rightarrow> timer" where
  "advance dt s = s\<lparr>hostNow := hostNow s + dt\<rparr>"

definition fireTimeout ::
  "(icb \<Rightarrow> timer \<Rightarrow> unit res \<times> timer) \<Rightarrow> nat \<Rightarrow> timer \<Rightarrow> unit res \<times> timer" where
  "fireTimeout exec h s =
     (case find (\<lambda>t. handle t = h) (hostTimeouts s) of
        None \<Rightarrow> (Return (), s)
      | Some t \<Rightarrow>
          runClosure exec (body t)
            (s\<lparr>hostTimeouts := filter (\<lambda>t. handle t \<noteq> h) (hostTimeouts s)\<rparr>))"


definition fireRaf ::
  "(icb \<Rightarrow> timer \<Rightarrow> unit res \<times> timer) \<Rightarrow> nat \<Rightarrow> timer \<Rightarrow> unit res \<times> timer" where
  "fireRaf exec h s =
     (case find (\<lambda>t. fst t = h) (hostRafs s) of
        None \<Rightarrow> (Return (), s)
      | Some t \<Rightarrow>
          runClosure exec (snd t) (s\<lparr>hostRafs := filter (\<lambda>t. fst t \<noteq> h) (hostRafs s)\<rparr>))"

section \<open>Example timers\<close>

definition noOptions :: options where
  "noOptions = \<lparr>opt_name = None, opt_callbacks = [], opt_timerSpeedMultiplier = None\<rparr>"

definition userSpec :: "cb_type \<Rightarrow> number \<Rightarrow> nat \<Rightarrow> string option \<Rightarrow> callback_spec" where
  "userSpec t ms f n =
     \<lparr>cb_type = t, cb_timeMs = ms, cb_callback = UserFn f, cb_requireAnimationFrame = None,
      cb_executeOnUpdate = None, cb_name = n, cb_logExecutions = None,
      cb_disableTickDriftCompensation = None\<rparr>"

text \<open>A timer made at host time 5, and the same timer 1400.5 ms after it was started.\<close>

definition freshTimer :: timer where
  "freshTimer = snd (SuperTimer_new 1 5 True noOptions)"


text \<open>A countdown of ten seconds whose time remaining was set to 0.\<close>

definition doneCountdown :: timer where
  "doneCountdown =
     snd (setTimeRemaining (executeCallback 1) 0 True
            (snd (SuperCountdown_new 1 5 True 10000 None noOptions)))"

text \<open>A timer disposed right after it was made.\<close>

definition disposedTimer :: timer where
  "disposedTimer = dispose freshTimer"

text \<open>
  A timer with a checkpoint and a tick that are both named \<open>a\<close>, after
  \<open>removeCallbacks(["a"])\<close>.
\<close>

definition dupTimer :: timer where
  "dupTimer =
     snd (removeCallbacks [''a'']
       (snd (SuperTimer_new 1 5 True
          \<lparr>opt_name = None,
           opt_callbacks = [userSpec Checkpoint 1000 1 (Some ''a''), userSpec Tick 1000 2 (Some ''a'')],
           opt_timerSpeedMultiplier = None\<rparr>)))"

text \<open>A timer on a host that has no \<open>structuredClone\<close>, after \<open>addTime(100)\<close>.\<close>

definition noCloneTimer :: timer where
  "noCloneTimer = snd (SuperTimer_addTime 0 100 False (snd (SuperTimer_new 1 5 False noOptions)))"






text \<open>
  A running timer with one checkpoint at 1000 ms that is flagged \<open>executeOnUpdate\<close> and
  \<open>requireAnimationFrame\<close>.
\<close>

definition rafCheckpointTimer :: timer where
  "rafCheckpointTimer =
     snd (unpause (executeCallback 0)
       (snd (SuperTimer_new 1 5 True
          \<lparr>opt_name = None,
           opt_callbacks =
             [(userSpec Checkpoint 1000 1 (Some ''cp''))
                \<lparr>cb_executeOnUpdate := Some True, cb_requireAnimationFrame := Some True\<rparr>],
           opt_timerSpeedMultiplier = None\<rparr>)))"

text \<open>
  A timer made and started while the host clock reads 0, one second later; and the
  timer of above, made at host time 5, started and read one second later.
\<close>

definition zeroClockTimer :: timer where
  "zeroClockTimer =
     advance 1000 (snd (start (executeCallback 0) (snd (SuperTimer_new 1 0 True noOptions))))"

definition laterClockTimer :: timer where
  "laterClockTimer = advance 1000 (snd (start (executeCallback 0) freshTimer))"

text \<open>
  A timer with a \<open>checkpoint-once\<close> callback at 1000 ms and a \<open>checkpoint\<close> callback at
  1500 ms; the same timer started; and the started timer after \<open>addTime(2000)\<close>.
\<close>

definition onceTimer :: timer where
  "onceTimer =
     snd (SuperTimer_new 1 5 True
       \<lparr>opt_name = None,
        opt_callbacks =
          [userSpec CheckpointOnce 1000 1 (Some ''once''), userSpec Checkpoint 1500 2 (Some ''cp'')],
        opt_timerSpeedMultiplier = None\<rparr>)"

definition onceStarted :: timer where
  "onceStarted = snd (start (executeCallback 0) onceTimer)"

definition onceJumped :: timer where
  "onceJumped = snd (SuperTimer_addTime 0 2000 False onceStarted)"

text \<open>
  A timer started at host time 5 and moved by \<open>addTime(100)\<close> 250 ms later, which leaves
  four events in its history.
\<close>

definition historyTimer :: timer where
  "historyTimer =
     snd (SuperTimer_addTime 0 100 False (advance 250 (snd (start (executeCallback 0) freshTimer))))"

section \<open>Notions used in the statements\<close>

text \<open>The elapsed time before rounding.\<close>

definition elapsedOf :: "number option \<Rightarrow> number \<Rightarrow> number \<Rightarrow> number \<Rightarrow> number" where
  "elapsedOf u e now sp =
     (case u of None \<Rightarrow> e | Some t \<Rightarrow> if t = 0 then e else e + (now - t) * sp)"

definition elapsedNow :: "timer \<Rightarrow> number" where
  "elapsedNow s = elapsedOf (unpausedAt s) (elapsedMs s) (hostNow s) (speed s)"

text \<open>The sequence number the next registration of a kind reads.\<close>

definition seedOf :: "timer \<Rightarrow> cb_type \<Rightarrow> nat" where
  "seedOf s t = (case callbackIdSeeds s t of None \<Rightarrow> 1 | Some n \<Rightarrow> if n = 0 then 1 else n)"








text \<open>
  Projections of the state used to say what a call leaves alone: the fields the clock is
  read from, the registered callbacks up to \<open>lastExecutionMs\<close>, and the fields no
  scheduling step touches.  \<open>fireIf\<close> is the body of the two loops that fire callbacks,
  and \<open>firedEvent\<close> the event a firing appends at the current elapsed time.
\<close>

definition core :: "timer \<Rightarrow> bool \<times> number option \<times> number \<times> number \<times> number \<times> timer_class \<times> number" where
  "core s = (disposed s, unpausedAt s, elapsedMs s, hostNow s, speed s, cls s, completeTime s)"

definition static :: "icb \<Rightarrow> icb" where
  "static c = c\<lparr>lastExecutionMs := 0\<rparr>"

definition staticCallbacks :: "timer \<Rightarrow> icb list" where
  "staticCallbacks s = map static (callbacks s)"

definition userFn :: "icb \<Rightarrow> bool" where
  "userFn c = (case callback c of UserFn f \<Rightarrow> True | _ \<Rightarrow> False)"

definition fnOf :: "icb \<Rightarrow> nat" where
  "fnOf c = (case callback c of UserFn f \<Rightarrow> f | _ \<Rightarrow> 0)"

definition firedEvent :: "timer \<Rightarrow> event_type \<Rightarrow> icb \<Rightarrow> TimerEvent" where
  "firedEvent s ev c = TimerEvent (hostNow s) (Math_round (elapsedNow s)) ev (DataName (name c))"

definition fireIf ::
  "(icb \<Rightarrow> timer \<Rightarrow> unit res \<times> timer) \<Rightarrow> (icb \<Rightarrow> bool) \<Rightarrow> (icb \<Rightarrow> event_type) \<Rightarrow> icb \<Rightarrow> timer
     \<Rightarrow> unit res \<times> timer" where
  "fireIf exec P E cb s =
     (if P cb then createEventAndInvokeCallback exec cb (Some (E cb)) None s else (Return (), s))"

definition logic :: "timer \<Rightarrow> (bool \<times> number option \<times> number \<times> number \<times> number \<times> timer_class \<times> number)
    \<times> icb list \<times> TimerEvent list \<times> invocation list" where
  "logic s = (core s, callbacks s, history s, invoked s)"

text \<open>
  The events of the pass over the callbacks flagged \<open>executeOnUpdate\<close>, and, in the words
  of the specification, the checkpoints a jump of \<open>d\<close> from \<open>old\<close> crosses: the callbacks
  of kind \<open>checkpoint\<close> in ascending order of \<open>timeMs\<close> whose target lies in the
  half-open interval from \<open>old\<close> (excluded) to \<open>old + d\<close> (included).
\<close>

definition updateType :: "icb \<Rightarrow> event_type" where
  "updateType cb = (if ctype cb = Checkpoint then EvCheckpoint else EvTick)"

definition updateEvents :: "number \<Rightarrow> number \<Rightarrow> icb list \<Rightarrow> TimerEvent list" where
  "updateEvents now el cbs =
     map (\<lambda>c. TimerEvent now el (updateType c) (DataName (name c))) (filter executeOnUpdate cbs)"





text \<open>The names that have an entry in one of the three maps of host handles.\<close>

definition keys :: "(string \<times> nat) list \<Rightarrow> string set" where
  "keys m = fst ` set m"


section \<open>Basic facts\<close>

lemma andThen_Return [simp]: "andThen (Return a, s) f = f a s"
  by (simp add: andThen_def)

lemma andThen_Throw [simp]: "andThen (Throw e, s) f = (Throw e, s)"
  by (simp add: andThen_def)

lemma checkDisposed_ok [simp]: "\<not> disposed s \<Longrightarrow> checkDisposed s = (Return (), s)"
  by (simp add: checkDisposed_def)

lemma checkDisposed_thrown [simp]:
  "disposed s \<Longrightarrow> checkDisposed s = (Throw (Disposed (tname s)), s)"
  by (simp add: checkDisposed_def)

lemma getElapsedMs_ok:
  "\<not> disposed s \<Longrightarrow> getElapsedMs s = (Return (Math_round (elapsedNow s)), s)"
  by (simp add: getElapsedMs_def elapsedNow_def elapsedOf_def running_def truthy_def
      split: option.splits)

lemma getElapsedMs_disposed: "disposed s \<Longrightarrow> getElapsedMs s = (Throw (Disposed (tname s)), s)"
  by (simp add: getElapsedMs_def)


section \<open>What the steps of the engine change\<close>

lemma core_eq:
  assumes "core s' = core s"
  shows "disposed s' = disposed s" "unpausedAt s' = unpausedAt s" "elapsedMs s' = elapsedMs s"
    "hostNow s' = hostNow s" "speed s' = speed s" "cls s' = cls s"
    "completeTime s' = completeTime s" "elapsedNow s' = elapsedNow s" "running s' = running s"
  using assms by (simp_all add: core_def elapsedNow_def running_def)

lemma executeCallback_user:
  assumes "callback cb = UserFn f"
  shows "executeCallback d cb s = (Return (), s\<lparr>invoked := invoked s @ [CallbackRun (name cb) f]\<rparr>)"
  using assms by (cases d) simp_all

lemma static_lastExecutionMs [simp]: "static (c\<lparr>lastExecutionMs := el\<rparr>) = static c"
  by (simp add: static_def)

lemma static_setLast [simp]:
  "map static (map (\<lambda>c. if oid c = i then c\<lparr>lastExecutionMs := el\<rparr> else c) cbs) = map static cbs"
  by (induction cbs) simp_all

lemma keys_update: "fst ` set (AList.update k v al) = insert k (fst ` set al)"
  by (induction al) auto

lemma fire_one:
  assumes "\<not> disposed s" and "callback cb = UserFn f"
  shows "fst (createEventAndInvokeCallback (executeCallback d) cb (Some ev) None s) = Return ()"
    and "core (snd (createEventAndInvokeCallback (executeCallback d) cb (Some ev) None s)) = core s"
    and "staticCallbacks (snd (createEventAndInvokeCallback (executeCallback d) cb (Some ev) None s))
           = staticCallbacks s"
    and "history (snd (createEventAndInvokeCallback (executeCallback d) cb (Some ev) None s))
           = history s @ [firedEvent s ev cb]"
    and "invoked (snd (createEventAndInvokeCallback (executeCallback d) cb (Some ev) None s))
           = invoked s @ (if requireAnimationFrame cb then [] else [CallbackRun (name cb) f])"
    and "timeouts (snd (createEventAndInvokeCallback (executeCallback d) cb (Some ev) None s))
           = timeouts s"
    and "intervals (snd (createEventAndInvokeCallback (executeCallback d) cb (Some ev) None s))
           = intervals s"
    and "fst ` set (rafs (snd (createEventAndInvokeCallback (executeCallback d) cb (Some ev) None s)))
           = (if requireAnimationFrame cb then insert (name cb) (fst ` set (rafs s))
              else fst ` set (rafs s))"
  using assms
  by (simp_all add: createEventAndInvokeCallback_def getElapsedMs_ok executeCallback_user
      pushEvent_def setLastExecutionMs_def requestAnimationFrame_def core_def staticCallbacks_def
      firedEvent_def sourceOr_def keys_update Let_def)

lemma andThen_fst:
  "fst r = Return a \<Longrightarrow> andThen r f = f a (snd r)"
  by (cases r) simp

lemma fire_loop:
  assumes "\<not> disposed s" and "list_all (\<lambda>c. P c \<longrightarrow> userFn c) cbs"
  shows "fst (forEach (fireIf (executeCallback d) P E) cbs s) = Return ()
       \<and> core (snd (forEach (fireIf (executeCallback d) P E) cbs s)) = core s
       \<and> staticCallbacks (snd (forEach (fireIf (executeCallback d) P E) cbs s)) = staticCallbacks s
       \<and> history (snd (forEach (fireIf (executeCallback d) P E) cbs s))
           = history s @ map (\<lambda>c. firedEvent s (E c) c) (filter P cbs)
       \<and> invoked (snd (forEach (fireIf (executeCallback d) P E) cbs s))
           = invoked s @ map (\<lambda>c. CallbackRun (name c) (fnOf c))
                           (filter (\<lambda>c. P c \<and> \<not> requireAnimationFrame c) cbs)
       \<and> timeouts (snd (forEach (fireIf (executeCallback d) P E) cbs s)) = timeouts s
       \<and> intervals (snd (forEach (fireIf (executeCallback d) P E) cbs s)) = intervals s
       \<and> fst ` set (rafs (snd (forEach (fireIf (executeCallback d) P E) cbs s)))
           = fst ` set (rafs s) \<union> name ` {c \<in> set cbs. P c \<and> requireAnimationFrame c}"
  using assms
proof (induction cbs arbitrary: s)
  case Nil
  then show ?case by simp
next
  case (Cons c cbs)
  show ?case
  proof (cases "P c")
    case False
    then have step: "forEach (fireIf (executeCallback d) P E) (c # cbs) s
                       = forEach (fireIf (executeCallback d) P E) cbs s"
      by (simp add: fireIf_def)
    from Cons.prems have "list_all (\<lambda>c. P c \<longrightarrow> userFn c) cbs" by simp
    from Cons.IH [OF Cons.prems(1) this] False show ?thesis
      unfolding step by auto
  next
    case True
    with Cons.prems obtain f where f: "callback c = UserFn f"
      by (auto simp: userFn_def split: action.splits)
    let ?r = "createEventAndInvokeCallback (executeCallback d) c (Some (E c)) None s"
    note one = fire_one [OF Cons.prems(1) f, of d "E c"]
    have step: "forEach (fireIf (executeCallback d) P E) (c # cbs) s
                  = forEach (fireIf (executeCallback d) P E) cbs (snd ?r)"
      using True one(1) by (simp add: fireIf_def andThen_fst)
    have nd: "\<not> disposed (snd ?r)"
      using core_eq(1) [OF one(2)] Cons.prems(1) by simp
    from Cons.prems have all: "list_all (\<lambda>c. P c \<longrightarrow> userFn c) cbs" by simp
    have ev: "firedEvent (snd ?r) = firedEvent s"
      using core_eq(4,8) [OF one(2)] by (simp add: firedEvent_def fun_eq_iff)
    have fn: "fnOf c = f" using f by (simp add: fnOf_def)
    from Cons.IH [OF nd all] True show ?thesis
      unfolding step one(2-8) ev by (auto simp: fn)
  qed
qed

lemma logic_eq:
  assumes "logic s' = logic s"
  shows "core s' = core s" "callbacks s' = callbacks s" "history s' = history s"
    "invoked s' = invoked s" "staticCallbacks s' = staticCallbacks s"
  using assms by (simp_all add: logic_def staticCallbacks_def)

lemma logic_clearTimeout [simp]: "logic (clearTimeout h s) = logic s"
  by (simp add: logic_def core_def clearTimeout_def)

lemma logic_clearInterval [simp]: "logic (clearInterval h s) = logic s"
  by (simp add: logic_def core_def clearInterval_def)

lemma logic_cancelAnimationFrame [simp]: "logic (cancelAnimationFrame h s) = logic s"
  by (simp add: logic_def core_def cancelAnimationFrame_def)

lemma logic_maps [simp]:
  "logic (s\<lparr>timeouts := a\<rparr>) = logic s" "logic (s\<lparr>intervals := b\<rparr>) = logic s"
  "logic (s\<lparr>rafs := c\<rparr>) = logic s"
  by (simp_all add: logic_def core_def)

lemma logic_fold_clearTimeout [simp]: "logic (fold clearTimeout hs s) = logic s"
  by (induction hs arbitrary: s) simp_all

lemma logic_fold_cancel [simp]: "logic (fold cancelAnimationFrame hs s) = logic s"
  by (induction hs arbitrary: s) simp_all

lemma maps_host [simp]:
  "timeouts (clearTimeout h s) = timeouts s" "intervals (clearTimeout h s) = intervals s"
  "rafs (clearTimeout h s) = rafs s"
  "timeouts (clearInterval h s) = timeouts s" "intervals (clearInterval h s) = intervals s"
  "rafs (clearInterval h s) = rafs s"
  "timeouts (cancelAnimationFrame h s) = timeouts s"
  "intervals (cancelAnimationFrame h s) = intervals s"
  "rafs (cancelAnimationFrame h s) = rafs s"
  by (simp_all add: clearTimeout_def clearInterval_def cancelAnimationFrame_def)

lemma maps_fold_clearTimeout [simp]:
  "timeouts (fold clearTimeout hs s) = timeouts s"
  "intervals (fold clearTimeout hs s) = intervals s" "rafs (fold clearTimeout hs s) = rafs s"
  by (induction hs arbitrary: s) simp_all

lemma maps_fold_cancel [simp]:
  "timeouts (fold cancelAnimationFrame hs s) = timeouts s"
  "intervals (fold cancelAnimationFrame hs s) = intervals s"
  "rafs (fold cancelAnimationFrame hs s) = rafs s"
  by (induction hs arbitrary: s) simp_all

lemma logic_clearTimeouts [simp]: "logic (clearTimeouts b s) = logic s"
  by (simp add: clearTimeouts_def Let_def split: list.splits)

lemma maps_clearTimeouts:
  "timeouts (clearTimeouts b s) = []"
  "intervals (clearTimeouts False s) = []"
  "rafs (clearTimeouts False s) = []"
  "intervals (clearTimeouts True s) = intervals s"
  "rafs (clearTimeouts True s) = rafs s"
  by (simp_all add: clearTimeouts_def Let_def split: list.splits)

lemma fireIf_eq:
  "fireIf exec P E =
     (\<lambda>cb s. if P cb then createEventAndInvokeCallback exec cb (Some (E cb)) None s
              else (Return (), s))"
  by (rule ext)+ (simp add: fireIf_def)

lemma executeUpdateCallbacks_fireIf:
  "executeUpdateCallbacks exec s =
     forEach (fireIf exec executeOnUpdate (\<lambda>cb. if ctype cb = Checkpoint then EvCheckpoint else EvTick))
       (callbacks s) s"
  by (simp add: executeUpdateCallbacks_def fireIf_eq)


lemma handleTickResetCallback_logic [simp]: "logic (handleTickResetCallback cb s) = logic s"
  by (simp add: handleTickResetCallback_def Let_def setInterval_def requestAnimationFrame_def
      logic_def core_def)







lemma pause_running_suppressed:
  assumes "\<not> disposed s" and "running s"
  shows "fst (pause exec True s) = Return True"
    and "core (snd (pause exec True s))
           = (False, None, elapsedNow s, hostNow s, speed s, cls s, completeTime s)"
    and "callbacks (snd (pause exec True s)) = callbacks s"
    and "history (snd (pause exec True s))
           = history s @ [TimerEvent (hostNow s) (elapsedNow s) EvPause NoData]"
    and "invoked (snd (pause exec True s)) = invoked s"
    and "timeouts (snd (pause exec True s)) = []"
    and "intervals (snd (pause exec True s)) = []"
    and "rafs (snd (pause exec True s)) = []"
proof -
  from assms(2) obtain u where u: "unpausedAt s = Some u" "u \<noteq> 0"
    by (auto simp: running_def truthy_def split: option.splits)
  let ?s2 = "pushEvent EvPause (elapsedMs s + (hostNow s - u) * speed s) NoData
               (s\<lparr>pausedAt := hostNow s,
                   elapsedMs := elapsedMs s + (hostNow s - u) * speed s, unpausedAt := None\<rparr>)"
  have p: "pause exec True s = (Return True, clearTimeouts False ?s2)"
    using assms u by (simp add: pause_def Let_def)
  have l: "logic (clearTimeouts False ?s2) = logic ?s2" by simp
  have en: "elapsedNow s = elapsedMs s + (hostNow s - u) * speed s"
    using u by (simp add: elapsedNow_def elapsedOf_def)
  show "fst (pause exec True s) = Return True" by (simp add: p)
  show "core (snd (pause exec True s))
           = (False, None, elapsedNow s, hostNow s, speed s, cls s, completeTime s)"
    using logic_eq(1) [OF l] assms(1) by (simp add: p en core_def pushEvent_def)
  show "callbacks (snd (pause exec True s)) = callbacks s"
    using logic_eq(2) [OF l] by (simp add: p pushEvent_def)
  show "history (snd (pause exec True s))
           = history s @ [TimerEvent (hostNow s) (elapsedNow s) EvPause NoData]"
    using logic_eq(3) [OF l] by (simp add: p en pushEvent_def)
  show "invoked (snd (pause exec True s)) = invoked s"
    using logic_eq(4) [OF l] by (simp add: p pushEvent_def)
  show "timeouts (snd (pause exec True s)) = []" "intervals (snd (pause exec True s)) = []"
    "rafs (snd (pause exec True s)) = []"
    by (simp_all add: p maps_clearTimeouts)
qed

lemma updateType_eq: "updateType = (\<lambda>cb. if ctype cb = Checkpoint then EvCheckpoint else EvTick)"
  by (rule ext) (simp add: updateType_def)

lemma executeUpdateCallbacks_updateType:
  "executeUpdateCallbacks exec s = forEach (fireIf exec executeOnUpdate updateType) (callbacks s) s"
  by (simp add: executeUpdateCallbacks_fireIf updateType_eq)



lemma executeUpdateCallbacks_user:
  assumes "\<not> disposed s" and "list_all (\<lambda>c. executeOnUpdate c \<longrightarrow> userFn c) (callbacks s)"
  shows "fst (executeUpdateCallbacks (executeCallback d) s) = Return ()"
    and "core (snd (executeUpdateCallbacks (executeCallback d) s)) = core s"
    and "staticCallbacks (snd (executeUpdateCallbacks (executeCallback d) s)) = staticCallbacks s"
    and "history (snd (executeUpdateCallbacks (executeCallback d) s))
           = history s @ updateEvents (hostNow s) (Math_round (elapsedNow s)) (callbacks s)"
    and "timeouts (snd (executeUpdateCallbacks (executeCallback d) s)) = timeouts s"
    and "intervals (snd (executeUpdateCallbacks (executeCallback d) s)) = intervals s"
    and "fst ` set (rafs (snd (executeUpdateCallbacks (executeCallback d) s)))
           = fst ` set (rafs s)
             \<union> name ` {c \<in> set (callbacks s). executeOnUpdate c \<and> requireAnimationFrame c}"
  using fire_loop [OF assms, of d updateType]
  by (simp_all add: executeUpdateCallbacks_updateType updateEvents_def firedEvent_def)








section \<open>Reading the clock\<close>

text \<open>
  Claim C3.  \<open>getElapsedMs\<close> decides whether the timer runs by the truthiness of
  \<open>unpausedAt\<close>, and so does every other method.  A timer started while
  \<open>performance.now()\<close> reads 0 stores 0 there: the unpause is in its history, and one
  second later \<open>getElapsedMs\<close> still returns the accumulated total 0, where the total
  plus \<open>(now - unpausedAt) * speed\<close> is 1000, and \<open>getState\<close> reports it paused.  The same
  timer started while the clock reads 5 returns 1000.  Every number of the two runs is a
  whole number.
\<close>

theorem getElapsedMs_frozen_after_start_at_clock_zero:
  "history zeroClockTimer = [TimerEvent 0 0 EvUnpause NoData]
   \<and> disposed zeroClockTimer = False
   \<and> unpausedAt zeroClockTimer = Some 0
   \<and> hostNow zeroClockTimer = 1000
   \<and> elapsedMs zeroClockTimer = 0
   \<and> speed zeroClockTimer = 1
   \<and> Math_round (elapsedMs zeroClockTimer + (hostNow zeroClockTimer - 0) * speed zeroClockTimer)
        = 1000
   \<and> fst (getElapsedMs zeroClockTimer) = Return 0
   \<and> fst (getState zeroClockTimer)
        = Return (TimerState 1 0 True (Cloned [TimerEvent 0 0 EvUnpause NoData]))
   \<and> unpausedAt laterClockTimer = Some 5
   \<and> hostNow laterClockTimer = 1005
   \<and> fst (getElapsedMs laterClockTimer) = Return 1000"
  by code_simp

section \<open>A completed countdown\<close>

lemma isDone_ok:
  "\<not> disposed s \<Longrightarrow> isDone s = (Return (completeTime s - Math_round (elapsedNow s) \<le> 0), s)"
  by (simp add: isDone_def getTimeRemaining_def getElapsedMs_ok)

lemma isDone_disposed: "disposed s \<Longrightarrow> isDone s = (Throw (Disposed (tname s)), s)"
  by (simp add: isDone_def getTimeRemaining_def getElapsedMs_disposed)

text \<open>
  Claim C5.  When \<open>isDone()\<close> returns true, \<open>unpause()\<close> of a countdown returns and leaves
  the whole state as it was, whatever \<open>executeCallback\<close> is: \<open>unpausedAt\<close> stays as it is
  (absent on a paused countdown) and the history gets no event.  The same holds for the
  engine's own calls of \<open>this.unpause\<close> and for \<open>start\<close>.
\<close>

theorem countdown_unpause_done_noop:
  assumes "fst (isDone s) = Return True"
  shows "SuperCountdown_unpause exec s = (Return (), s)
       \<and> (cls s = SuperCountdownClass \<longrightarrow>
            this_unpause exec s = (Return (), s) \<and> start exec s = (Return (), s))
       \<and> unpausedAt (snd (SuperCountdown_unpause exec s)) = unpausedAt s
       \<and> history (snd (SuperCountdown_unpause exec s)) = history s"
proof -
  have nd: "\<not> disposed s"
    using assms by (cases "disposed s") (simp_all add: isDone_disposed)
  then have d: "isDone s = (Return True, s)"
    using assms by (simp add: isDone_ok)
  then have u: "SuperCountdown_unpause exec s = (Return (), s)"
    by (simp add: SuperCountdown_unpause_def)
  then show ?thesis
    by (simp add: this_unpause_def start_def)
qed

theorem countdown_unpause_done_noop_witness:
  "fst (isDone doneCountdown) = Return True
   \<and> unpausedAt doneCountdown = None
   \<and> SuperCountdown_unpause (executeCallback 1) doneCountdown = (Return (), doneCountdown)"
proof -
  have a: "fst (isDone doneCountdown) = Return True" by code_simp
  have b: "unpausedAt doneCountdown = None" by code_simp
  from countdown_unpause_done_noop [OF a, of "executeCallback 1"] a b show ?thesis by simp
qed

section \<open>Calls on a disposed timer\<close>

text \<open>
  Every public method but two starts with \<open>checkDisposed\<close>: on a disposed timer it
  throws before it assigns anything.
\<close>

lemma setSpeedMultiplier_disposed_paused:
  assumes "disposed s" and "\<not> running s" and "v \<noteq> speed s"
  shows "setSpeedMultiplier exec v s
           = (Return (), pushEvent EvSetSpeed (elapsedMs s) (DataSpeed v) (s\<lparr>speed := v\<rparr>))"
  using assms by (simp add: setSpeedMultiplier_def)

lemma disposed_calls_throw:
  assumes "disposed s"
  shows "registerCallbacks cbs s = (Throw (Disposed (tname s)), s)"
    and "removeCallbacks ns s = (Throw (Disposed (tname s)), s)"
    and "removeAllCallbacks s = (Throw (Disposed (tname s)), s)"
    and "unpause exec s = (Throw (Disposed (tname s)), s)"
    and "pause exec b s = (Throw (Disposed (tname s)), s)"
    and "addTime exec ms b s = (Throw (Disposed (tname s)), s)"
    and "setTime exec ms b s = (Throw (Disposed (tname s)), s)"
    and "getElapsedMs s = (Throw (Disposed (tname s)), s)"
    and "getState s = (Throw (Disposed (tname s)), s)"
    and "registerCompleteCallback f once s = (Throw (Disposed (tname s)), s)"
    and "getTimeRemaining s = (Throw (Disposed (tname s)), s)"
    and "isDone s = (Throw (Disposed (tname s)), s)"
    and "SuperCountdown_unpause exec s = (Throw (Disposed (tname s)), s)"
    and "this_unpause exec s = (Throw (Disposed (tname s)), s)"
    and "SuperCountdown_addTime exec ms b s = (Throw (Disposed (tname s)), s)"
    and "setTimeRemaining exec ms b s = (Throw (Disposed (tname s)), s)"
  using assms
  by (simp_all add: registerCallbacks_def removeCallbacks_def removeAllCallbacks_def unpause_def
      pause_def addTime_def setTime_def getElapsedMs_def getState_def registerCompleteCallback_def
      getTimeRemaining_def isDone_def SuperCountdown_unpause_def this_unpause_def
      SuperCountdown_addTime_def setTimeRemaining_def split: timer_class.splits)

text \<open>
  Claim C6.  \<open>setSpeedMultiplier\<close> has no such check.  On a timer that was paused when
  it was disposed, the call returns, changes the speed and appends an event to the
  history, where \<open>pause\<close> on the same timer throws.
\<close>

theorem setSpeedMultiplier_after_dispose:
  "disposed disposedTimer
   \<and> fst (pause (executeCallback 1) False disposedTimer) = Throw (Disposed ''timer-1'')
   \<and> fst (setSpeedMultiplier (executeCallback 1) 2 disposedTimer) = Return ()
   \<and> speed disposedTimer = 1
   \<and> speed (snd (setSpeedMultiplier (executeCallback 1) 2 disposedTimer)) = 2
   \<and> history disposedTimer = []
   \<and> history (snd (setSpeedMultiplier (executeCallback 1) 2 disposedTimer))
       = [TimerEvent 5 0 EvSetSpeed (DataSpeed 2)]"
  by code_simp

section \<open>Name conflicts\<close>

text \<open>
  A registration whose name is in the name set of its kind throws and assigns nothing.
\<close>

lemma registerOne_conflict:
  assumes "callbackIdSeeds s (cb_type c) = Some k" and "k \<noteq> 0"
    and "callbackNames s (cb_type c) = Some ns"
    and "(case cb_name c of Some n \<Rightarrow> n | None \<Rightarrow> type_str (cb_type c) @ ''-'' @ show_nat k) \<in> ns"
  shows "registerOne c acc s = (Throw (NameConflict (cb_type c) (cb_name c)), s)"
  using assms by (simp add: registerOne_def)

text \<open>
  Claim C7.  The name sets are not the names of the registered callbacks:
  \<open>removeCallbacks\<close> removes the first record of the name and deletes the name from the
  sets of all four kinds.  After a checkpoint and a tick named \<open>a\<close> were registered and
  \<open>a\<close> was removed, the tick is still registered, and a second tick named \<open>a\<close> is
  registered without an error.
\<close>

theorem duplicate_name_after_removal:
  "map ctype (callbacks dupTimer) = [Tick] \<and> map name (callbacks dupTimer) = [''a'']
   \<and> fst (registerCallbacks [userSpec Tick 500 3 (Some ''a'')] dupTimer) = Return ()
   \<and> map ctype (callbacks (snd (registerCallbacks [userSpec Tick 500 3 (Some ''a'')] dupTimer)))
        = [Tick, Tick]
   \<and> map name (callbacks (snd (registerCallbacks [userSpec Tick 500 3 (Some ''a'')] dupTimer)))
        = [''a'', ''a'']"
  by code_simp

section \<open>Snapshots\<close>

text \<open>
  Claim C9, as the code has it.  On a timer that is not disposed \<open>getState\<close> returns the
  identifier, the rounded elapsed time, whether the timer is paused, and a history.
  Where the host has \<open>structuredClone\<close> the history is a copy: changing it leaves the
  timer, and so every later snapshot, as it was, and what the copy holds does not depend
  on the timer.  Where the host has no \<open>structuredClone\<close> the history returned is the
  history object of the timer itself.
\<close>

theorem getState_snapshot:
  assumes "\<not> disposed s"
  shows "(structuredCloneAvailable s \<longrightarrow>
           getState s = (Return (TimerState (tid s) (Math_round (elapsedNow s)) (\<not> running s)
                                     (Cloned (history s))), s))
       \<and> (\<not> structuredCloneAvailable s \<longrightarrow>
           getState s = (Return (TimerState (tid s) (Math_round (elapsedNow s)) (\<not> running s)
                                     InternalHistory), s))
       \<and> readHistory (Cloned (history s)) s = history s
       \<and> (\<forall>f. snd (mutateHistory f (Cloned (history s)) s) = s
              \<and> getState (snd (mutateHistory f (Cloned (history s)) s)) = getState s
              \<and> (\<forall>s'. readHistory (fst (mutateHistory f (Cloned (history s)) s)) s' = f (history s)))"
  using assms
  by (simp add: getState_def getElapsedMs_ok readHistory_def mutateHistory_def)

theorem getState_snapshot_witness:
  "\<not> disposed historyTimer \<and> structuredCloneAvailable historyTimer
   \<and> history historyTimer
        = [TimerEvent 5 0 EvUnpause NoData, TimerEvent 255 250 EvAddTime (DataAddTime 100),
           TimerEvent 255 250 EvPause NoData, TimerEvent 255 350 EvUnpause NoData]
   \<and> getState historyTimer
        = (Return (TimerState 1 350 False (Cloned (history historyTimer))), historyTimer)
   \<and> snd (mutateHistory tl (Cloned (history historyTimer)) historyTimer) = historyTimer
   \<and> getState (snd (mutateHistory tl (Cloned (history historyTimer)) historyTimer))
        = getState historyTimer
   \<and> readHistory (fst (mutateHistory tl (Cloned (history historyTimer)) historyTimer)) historyTimer
        = [TimerEvent 255 250 EvAddTime (DataAddTime 100),
           TimerEvent 255 250 EvPause NoData, TimerEvent 255 350 EvUnpause NoData]
   \<and> history (snd (mutateHistory tl InternalHistory historyTimer))
        = [TimerEvent 255 250 EvAddTime (DataAddTime 100),
           TimerEvent 255 250 EvPause NoData, TimerEvent 255 350 EvUnpause NoData]"
proof -
  have a: "\<not> disposed historyTimer" by code_simp
  have b: "structuredCloneAvailable historyTimer" by code_simp
  have c: "tid historyTimer = 1" "Math_round (elapsedNow historyTimer) = 350"
    "running historyTimer"
    by code_simp+
  have h: "history historyTimer
        = [TimerEvent 5 0 EvUnpause NoData, TimerEvent 255 250 EvAddTime (DataAddTime 100),
           TimerEvent 255 250 EvPause NoData, TimerEvent 255 350 EvUnpause NoData]"
    by code_simp
  have i: "history (snd (mutateHistory tl InternalHistory historyTimer))
        = [TimerEvent 255 250 EvAddTime (DataAddTime 100),
           TimerEvent 255 250 EvPause NoData, TimerEvent 255 350 EvUnpause NoData]"
    by code_simp
  note l = getState_snapshot [OF a]
  from l b c have g: "getState historyTimer
        = (Return (TimerState 1 350 False (Cloned (history historyTimer))), historyTimer)"
    by simp
  from l have m: "snd (mutateHistory tl (Cloned (history historyTimer)) historyTimer) = historyTimer"
    and r: "readHistory (fst (mutateHistory tl (Cloned (history historyTimer)) historyTimer))
              historyTimer = tl (history historyTimer)"
    by blast+
  from l have n: "getState (snd (mutateHistory tl (Cloned (history historyTimer)) historyTimer))
        = getState historyTimer"
    by blast
  have r': "readHistory (fst (mutateHistory tl (Cloned (history historyTimer)) historyTimer))
              historyTimer
        = [TimerEvent 255 250 EvAddTime (DataAddTime 100),
           TimerEvent 255 250 EvPause NoData, TimerEvent 255 350 EvUnpause NoData]"
    using r by (simp add: h)
  from a b h g m n r' i show ?thesis by blast
qed

text \<open>
  Claim C9 as stated fails on a host without \<open>structuredClone\<close>: removing the first
  event from the history a snapshot returned removes it from the timer, and the next
  snapshot shows it.
\<close>

theorem getState_shares_history_without_structuredClone:
  "fst (getState noCloneTimer) = Return (TimerState 1 100 True InternalHistory)
   \<and> history noCloneTimer = [TimerEvent 5 0 EvAddTime (DataAddTime 100)]
   \<and> history (snd (mutateHistory tl InternalHistory noCloneTimer)) = []
   \<and> fst (getState (snd (mutateHistory tl InternalHistory noCloneTimer)))
        = Return (TimerState 1 100 True InternalHistory)
   \<and> readHistory InternalHistory (snd (mutateHistory tl InternalHistory noCloneTimer)) = []"
  by code_simp

section \<open>Sequence numbers of callback names\<close>








lemma seedOf_fieldInitializers [simp]: "seedOf (fieldInitializers cl i now sc) t = 1"
  by (simp add: seedOf_def fieldInitializers_def)



section \<open>The next execution of a tick callback\<close>








section \<open>Jumps over checkpoints\<close>

text \<open>
  Claim C1.  The walk of \<open>_addTime\<close> goes over the callbacks of kind \<open>checkpoint\<close> only.
  On a running timer with a \<open>checkpoint-once\<close> callback at 1000 ms and a \<open>checkpoint\<close>
  callback at 1500 ms, both functions of the user, \<open>addTime(2000)\<close> at elapsed
  time 0 runs the callback at 1500 and not the one at 1000: the history has no event
  for it, it stays registered, and the timer resumed at 2000 sets no host timer for it,
  so it is never run.  Left to the clock, the same timer runs the \<open>checkpoint-once\<close>
  callback at 1000 through the host timer of \<open>handleCheckpointCallback\<close> and removes it.
\<close>

theorem addTime_skips_checkpoint_once:
  "map name (callbacks onceStarted) = [''once'', ''cp'']
   \<and> map ctype (callbacks onceStarted) = [CheckpointOnce, Checkpoint]
   \<and> map timeMs (callbacks onceStarted) = [1000, 1500]
   \<and> fst (getElapsedMs onceStarted) = Return 0
   \<and> invoked onceStarted = []
   \<and> timeouts onceStarted = [(''once'', 1), (''cp'', 2)]
   \<and> fst (SuperTimer_addTime 0 2000 False onceStarted) = Return ()
   \<and> fst (getElapsedMs onceJumped) = Return 2000
   \<and> invoked onceJumped = [CallbackRun ''cp'' 2]
   \<and> history onceJumped
        = [TimerEvent 5 0 EvUnpause NoData,
           TimerEvent 5 0 EvAddTime (DataAddTime 2000),
           TimerEvent 5 0 EvPause NoData,
           TimerEvent 5 2000 EvCheckpoint (DataName ''cp''),
           TimerEvent 5 2000 EvUnpause NoData]
   \<and> map name (callbacks onceJumped) = [''once'', ''cp'']
   \<and> unpausedAt onceJumped = Some 5
   \<and> timeouts onceJumped = []
   \<and> hostTimeouts onceJumped = []
   \<and> invoked (snd (fireTimeout (executeCallback 0) 1 (advance 1000 onceStarted)))
        = [CallbackRun ''once'' 1]
   \<and> history (snd (fireTimeout (executeCallback 0) 1 (advance 1000 onceStarted)))
        = [TimerEvent 5 0 EvUnpause NoData,
           TimerEvent 1005 1000 EvCheckpoint (DataName ''once'')]
   \<and> map name (callbacks (snd (fireTimeout (executeCallback 0) 1 (advance 1000 onceStarted))))
        = [''cp'']"
  by code_simp

section \<open>The time remaining of a countdown\<close>












section \<open>The maps of host handles\<close>

lemma keys_delete: "keys (AList.delete n m) = keys m - {n}"
  by (induction m) (auto simp: keys_def)

lemma map_of_None_keys: "map_of m n = None \<Longrightarrow> keys m - {n} = keys m"
  by (auto simp: keys_def map_of_eq_None_iff)

lemma deleteName_maps [simp]:
  "timeouts (deleteName t n s) = timeouts s" "intervals (deleteName t n s) = intervals s"
  "rafs (deleteName t n s) = rafs s" "disposed (deleteName t n s) = disposed s"
  by (simp_all add: deleteName_def split: option.splits)

lemma removeOne_keys:
  "keys (timeouts (removeOne n s)) = keys (timeouts s) - {n}"
  "keys (intervals (removeOne n s)) = keys (intervals s) - {n}"
  "keys (rafs (removeOne n s)) = keys (rafs s) - {n}"
  by (auto simp: removeOne_def Let_def keys_delete map_of_None_keys split: option.splits)

lemma fold_removeOne_keys:
  "keys (timeouts (fold removeOne ns s)) = keys (timeouts s) - set ns
   \<and> keys (intervals (fold removeOne ns s)) = keys (intervals s) - set ns
   \<and> keys (rafs (fold removeOne ns s)) = keys (rafs s) - set ns"
  by (induction ns arbitrary: s) (auto simp: removeOne_keys)

lemma removeCallbacks_keys:
  assumes "\<not> disposed s"
  shows "fst (removeCallbacks ns s) = Return ()"
    and "keys (timeouts (snd (removeCallbacks ns s))) = keys (timeouts s) - set ns"
    and "keys (intervals (snd (removeCallbacks ns s))) = keys (intervals s) - set ns"
    and "keys (rafs (snd (removeCallbacks ns s))) = keys (rafs s) - set ns"
  using assms fold_removeOne_keys [of ns s] by (simp_all add: removeCallbacks_def)

lemma pause_running_unsuppressed:
  assumes "\<not> disposed s" and "running s"
  shows "pause exec False s
           = andThen (executeUpdateCallbacks exec (snd (pause exec True s))) (\<lambda>_ s. (Return True, s))"
proof -
  from assms(2) obtain u where u: "unpausedAt s = Some u" "u \<noteq> 0"
    by (auto simp: running_def truthy_def split: option.splits)
  show ?thesis
    using assms u by (simp add: pause_def Let_def)
qed

lemma pause_user:
  assumes nd: "\<not> disposed s" and r: "running s"
    and upd: "list_all (\<lambda>c. executeOnUpdate c \<longrightarrow> userFn c) (callbacks s)"
  shows "fst (pause (executeCallback d) False s) = Return True"
    and "timeouts (snd (pause (executeCallback d) False s)) = []"
    and "intervals (snd (pause (executeCallback d) False s)) = []"
    and "keys (rafs (snd (pause (executeCallback d) False s)))
           = name ` {c \<in> set (callbacks s). executeOnUpdate c \<and> requireAnimationFrame c}"
proof -
  define s3 where "s3 = snd (pause (executeCallback d) True s)"
  note p = pause_running_suppressed [OF nd r, of "executeCallback d", folded s3_def]
  have nd3: "\<not> disposed s3" using p(2) by (simp add: core_def)
  have upd3: "list_all (\<lambda>c. executeOnUpdate c \<longrightarrow> userFn c) (callbacks s3)"
    using upd p(3) by simp
  note u = executeUpdateCallbacks_user [OF nd3 upd3, of d]
  have e: "pause (executeCallback d) False s
             = (Return True, snd (executeUpdateCallbacks (executeCallback d) s3))"
    using u(1) by (simp add: pause_running_unsuppressed [OF nd r] s3_def [symmetric] andThen_fst)
  show "fst (pause (executeCallback d) False s) = Return True" by (simp add: e)
  show "timeouts (snd (pause (executeCallback d) False s)) = []" by (simp add: e u(5) p(6))
  show "intervals (snd (pause (executeCallback d) False s)) = []" by (simp add: e u(6) p(7))
  show "keys (rafs (snd (pause (executeCallback d) False s)))
           = name ` {c \<in> set (callbacks s). executeOnUpdate c \<and> requireAnimationFrame c}"
    by (simp add: e u(7) p(8) p(3) keys_def)
qed

text \<open>
  Claim C8, as the code has it.  \<open>removeCallbacks\<close> deletes the names it is given from
  all three maps.  \<open>pause\<close> of a running timer empties the three maps before it
  executes the callbacks flagged \<open>executeOnUpdate\<close>; with those suppressed the maps are
  empty when it returns, and otherwise the map of frame requests holds the flagged
  callbacks that require an animation frame.  Nothing keeps a name from having an entry
  in two maps.
\<close>

theorem maps_cleared:
  "(\<not> disposed s \<longrightarrow>
      fst (removeCallbacks ns s) = Return ()
    \<and> keys (timeouts (snd (removeCallbacks ns s))) = keys (timeouts s) - set ns
    \<and> keys (intervals (snd (removeCallbacks ns s))) = keys (intervals s) - set ns
    \<and> keys (rafs (snd (removeCallbacks ns s))) = keys (rafs s) - set ns)
   \<and> (\<not> disposed s \<and> running s \<longrightarrow>
      fst (pause exec True s) = Return True
    \<and> timeouts (snd (pause exec True s)) = []
    \<and> intervals (snd (pause exec True s)) = []
    \<and> rafs (snd (pause exec True s)) = [])
   \<and> (\<not> disposed s \<and> running s
        \<and> list_all (\<lambda>c. executeOnUpdate c \<longrightarrow> userFn c) (callbacks s) \<longrightarrow>
      fst (pause (executeCallback d) False s) = Return True
    \<and> timeouts (snd (pause (executeCallback d) False s)) = []
    \<and> intervals (snd (pause (executeCallback d) False s)) = []
    \<and> keys (rafs (snd (pause (executeCallback d) False s)))
         = name ` {c \<in> set (callbacks s). executeOnUpdate c \<and> requireAnimationFrame c})"
proof (intro conjI impI)
  assume nd: "\<not> disposed s"
  show "fst (removeCallbacks ns s) = Return ()"
    and "keys (timeouts (snd (removeCallbacks ns s))) = keys (timeouts s) - set ns"
    and "keys (intervals (snd (removeCallbacks ns s))) = keys (intervals s) - set ns"
    and "keys (rafs (snd (removeCallbacks ns s))) = keys (rafs s) - set ns"
    by (rule removeCallbacks_keys [OF nd])+
next
  assume a: "\<not> disposed s \<and> running s"
  then have nd: "\<not> disposed s" and r: "running s" by simp_all
  note p = pause_running_suppressed [OF nd r, of exec]
  show "fst (pause exec True s) = Return True" by (rule p(1))
  show "timeouts (snd (pause exec True s)) = []" by (rule p(6))
  show "intervals (snd (pause exec True s)) = []" by (rule p(7))
  show "rafs (snd (pause exec True s)) = []" by (rule p(8))
next
  assume a: "\<not> disposed s \<and> running s
             \<and> list_all (\<lambda>c. executeOnUpdate c \<longrightarrow> userFn c) (callbacks s)"
  then have nd: "\<not> disposed s" and r: "running s"
    and upd: "list_all (\<lambda>c. executeOnUpdate c \<longrightarrow> userFn c) (callbacks s)"
    by simp_all
  note p = pause_user [OF nd r upd, of d]
  show "fst (pause (executeCallback d) False s) = Return True" by (rule p(1))
  show "timeouts (snd (pause (executeCallback d) False s)) = []" by (rule p(2))
  show "intervals (snd (pause (executeCallback d) False s)) = []" by (rule p(3))
  show "keys (rafs (snd (pause (executeCallback d) False s)))
         = name ` {c \<in> set (callbacks s). executeOnUpdate c \<and> requireAnimationFrame c}"
    by (rule p(4))
qed

theorem maps_cleared_witness:
  "\<not> disposed rafCheckpointTimer \<and> running rafCheckpointTimer
   \<and> keys (timeouts rafCheckpointTimer) = {''cp''} \<and> keys (rafs rafCheckpointTimer) = {''cp''}
   \<and> fst (removeCallbacks [''cp''] rafCheckpointTimer) = Return ()
   \<and> keys (timeouts (snd (removeCallbacks [''cp''] rafCheckpointTimer))) = {}
   \<and> keys (rafs (snd (removeCallbacks [''cp''] rafCheckpointTimer))) = {}
   \<and> timeouts (snd (pause (executeCallback 0) True rafCheckpointTimer)) = []
   \<and> rafs (snd (pause (executeCallback 0) True rafCheckpointTimer)) = []"
proof -
  have a: "\<not> disposed rafCheckpointTimer" "running rafCheckpointTimer"
    by code_simp+
  have k: "keys (timeouts rafCheckpointTimer) = {''cp''}" "keys (rafs rafCheckpointTimer) = {''cp''}"
    by code_simp+
  note m = maps_cleared [where s = rafCheckpointTimer and ns = "[''cp'']"
      and exec = "executeCallback 0"]
  note m1 = m [THEN conjunct1, rule_format, OF a(1)]
  note m2 = m [THEN conjunct2, THEN conjunct1, rule_format, OF conjI [OF a]]
  from m1 m2 have "fst (removeCallbacks [''cp''] rafCheckpointTimer) = Return ()
    \<and> keys (timeouts (snd (removeCallbacks [''cp''] rafCheckpointTimer)))
         = keys (timeouts rafCheckpointTimer) - set [''cp'']
    \<and> keys (rafs (snd (removeCallbacks [''cp''] rafCheckpointTimer)))
         = keys (rafs rafCheckpointTimer) - set [''cp'']
    \<and> timeouts (snd (pause (executeCallback 0) True rafCheckpointTimer)) = []
    \<and> rafs (snd (pause (executeCallback 0) True rafCheckpointTimer)) = []"
    by simp
  with a k show ?thesis by simp
qed

text \<open>
  Claim C8 as stated fails: after \<open>unpause\<close> the checkpoint of the example has a pending
  timeout and a pending frame request, an entry in two maps, and after \<open>pause()\<close> it has
  an entry in the map of frame requests again.
\<close>

theorem name_in_two_maps:
  "timeouts rafCheckpointTimer = [(''cp'', 1)] \<and> rafs rafCheckpointTimer = [(''cp'', 2)]
   \<and> map handle (hostTimeouts rafCheckpointTimer) = [1]
   \<and> map fst (hostRafs rafCheckpointTimer) = [2]
   \<and> fst (pause (executeCallback 0) False rafCheckpointTimer) = Return True
   \<and> rafs (snd (pause (executeCallback 0) False rafCheckpointTimer)) = [(''cp'', 3)]
   \<and> map fst (hostRafs (snd (pause (executeCallback 0) False rafCheckpointTimer))) = [3]"
  by code_simp

end
